theory Spec2Isabelle
  imports Main "HOL-Library.Word" "HOL-Library.Signed_Division"
begin

section \<open>The per-port packet engine of server/pcapport.cpp\<close>

text \<open>
  A shallow embedding of \<^verbatim>\<open>PcapPort::PortMonitor\<close> and
  \<^verbatim>\<open>PcapPort::PortTransmitter\<close>.

  Conventions of the embedding.
  \<^item> C++ \<^verbatim>\<open>long\<close> and \<^verbatim>\<open>int\<close> values (times, delays, indices)
    are HOL integers. Signed overflow is undefined behaviour in C++, so the model describes
    the executions in which no signed operation overflows. C++ integer division truncates
    towards zero and is written \<open>sdiv\<close>.
  \<^item> The unsigned fields of \<^verbatim>\<open>pcap_pkthdr\<close> are 32-bit words and the
    statistics counters are 64-bit words; their arithmetic wraps.
  \<^item> A \<^verbatim>\<open>PacketSequence*\<close> is the index of the sequence in
    \<^verbatim>\<open>packetSequenceList_\<close>: every element of the list is a distinct heap
    object that is never removed except by \<^verbatim>\<open>clearPacketList\<close>, so pointer
    equality is index equality. \<^verbatim>\<open>NULL\<close> is \<open>None\<close>.
  \<^item> A failed \<^verbatim>\<open>Q_ASSERT\<close>, an out-of-range \<^verbatim>\<open>QList\<close>
    access, a null dereference and \<^verbatim>\<open>qFatal\<close> end the program; they are
    the \<open>Inl\<close> results of the model, and the \<open>Crashed\<close> outcome of a worker.
  \<^item> A worker's loop that may go on for ever takes fuel; when the fuel runs out the
    outcome is \<open>StillRunning\<close> with the world reached so far.
\<close>

subsection \<open>Errors\<close>

datatype assertion =
    A_not_isRunning
  | A_hasFreeSpace
  | A_repeatSequenceStart_ge_0
  | A_repeatSequenceStart_lt_size
  | A_overHead_le_0_fastpath
  | A_overHead_le_0_sendQueueTransmit
  | A_pktLen_gt_0

datatype error =
    Q_ASSERT_failed assertion
  | IndexOutOfRange
  | NullDereference
  | qFatal_unexpected int

subsection \<open>Packet headers, statistics, sequences\<close>

record pcap_pkthdr =
  tv_sec :: int
  tv_usec :: int
  caplen :: "32 word"
  len :: "32 word"

type_synonym uchar = "8 word"

text \<open>One record of a send queue: the header followed by \<open>caplen\<close> bytes.\<close>

type_synonym queued_packet = "pcap_pkthdr \<times> uchar list"

record PortStats =
  rxPkts :: "64 word"
  rxBytes :: "64 word"
  txPkts :: "64 word"
  txBytes :: "64 word"

text \<open>
  Build parameters that the file takes from its environment:
  \<^verbatim>\<open>sizeof(pcap_pkthdr)\<close>, the capacity of a sequence's send queue, the
  operating system selected by the preprocessor and (on Win32) the frequency of the
  performance counter.
\<close>

datatype Platform = Q_OS_LINUX | Q_OS_WIN32 | Q_OS_OTHER

record Config =
  sizeof_pcap_pkthdr :: int
  sendQueueMaxLen :: int
  platform :: Platform
  gTicksFreq :: int

record PacketSequence =
  sendQueue :: "queued_packet list"
  sendQueueLen :: int
  lastPacket :: "pcap_pkthdr option"
  packets :: int
  bytes :: int
  usecDuration :: int
  repeatCount :: int
  repeatSize :: int
  usecDelay :: int

text \<open>
  Modelled from the spec: the class \<^verbatim>\<open>PacketSequence\<close> is declared in
  pcapport.h, which is not among the sources. A fresh sequence is empty, and a sequence
  that is not the start of a group has \<open>repeatSize = 1\<close> and \<open>repeatCount = 1\<close>
  (spec, replay algorithm, step 1).
\<close>

definition newPacketSequence :: PacketSequence where
  "newPacketSequence =
     \<lparr> sendQueue = [], sendQueueLen = 0, lastPacket = None, packets = 0, bytes = 0,
       usecDuration = 0, repeatCount = 1, repeatSize = 1, usecDelay = 0 \<rparr>"

text \<open>
  Modelled from the spec: \<^verbatim>\<open>PacketSequence::hasFreeSpace\<close> (pcapport.h) of the
  "size-bounded buffer": \<open>size\<close> more bytes fit below the capacity.
\<close>

definition hasFreeSpace :: "Config \<Rightarrow> PacketSequence \<Rightarrow> int \<Rightarrow> bool" where
  "hasFreeSpace cfg s sz \<longleftrightarrow> sendQueueLen s + sz \<le> sendQueueMaxLen cfg"

text \<open>
  Modelled from the spec: \<^verbatim>\<open>PacketSequence::appendPacket\<close> (pcapport.h).
  \<open>usecDuration\<close> is the sum of the inter-packet gaps, \<open>packets\<close> the count,
  \<open>bytes\<close> the byte count; the record is queued when it fits and the call fails
  (a negative result) when it does not.
\<close>

definition appendPacket ::
  "Config \<Rightarrow> pcap_pkthdr \<Rightarrow> uchar list \<Rightarrow> PacketSequence \<Rightarrow> int \<times> PacketSequence" where
  "appendPacket cfg pktHeader pktData s =
     (let s1 = (case lastPacket s of
                  None \<Rightarrow> s
                | Some lp \<Rightarrow>
                    s\<lparr>usecDuration := usecDuration s
                         + (tv_sec pktHeader - tv_sec lp) * 1000000
                         + (tv_usec pktHeader - tv_usec lp)\<rparr>);
          s2 = s1\<lparr>packets := packets s1 + 1,
                  bytes := bytes s1 + uint (caplen pktHeader),
                  lastPacket := Some pktHeader\<rparr>;
          need = sizeof_pcap_pkthdr cfg + uint (caplen pktHeader)
      in if sendQueueLen s2 + need \<le> sendQueueMaxLen cfg
         then (0, s2\<lparr>sendQueue := sendQueue s2 @ [(pktHeader, pktData)],
                     sendQueueLen := sendQueueLen s2 + need\<rparr>)
         else (-1, s2))"

subsection \<open>The transmitter's state\<close>

datatype TxState = kNotStarted | kRunning | kFinished

record PortTransmitter =
  packetSequenceList :: "PacketSequence list"
  currentPacketSequence :: "nat option"
  repeatSequenceStart :: int
  repeatSize_tx :: int
  packetCount :: int
  returnToQIdx :: int
  loopDelay :: int
  state :: TxState
  stop :: bool
  stats :: PortStats

text \<open>
  \<open>repeatSize_tx\<close> is the member \<^verbatim>\<open>PortTransmitter::repeatSize_\<close> (the target
  of the open repeat group); \<open>repeatSize\<close> is \<^verbatim>\<open>PacketSequence::repeatSize_\<close>.
  The transmitter's member is an unsigned 64-bit integer (line 485 prints it with
  \<^verbatim>\<open>%llu\<close>): the field holds its value, between 0 and \<open>2^64 - 1\<close>. The
  \<open>repeatCount\<close> and \<open>repeatSize\<close> of a sequence are \<^verbatim>\<open>int\<close> (lines 552-554
  and 567-568): the fields hold values between \<open>-2^31\<close> and \<open>2^31 - 1\<close>.
\<close>

definition isRunning :: "PortTransmitter \<Rightarrow> bool" where
  "isRunning t \<longleftrightarrow> state t = kRunning"

text \<open>
  Modelled from the spec: \<^verbatim>\<open>setPacketListLoopMode(enabled, returnIndex,
  delayUsec)\<close> is defined in pcapport.h. When enabled the replay jumps back to
  \<open>returnIndex\<close> after \<open>delayUsec\<close>; a disabled loop is a negative index, which is
  what \<^verbatim>\<open>run\<close> tests.
\<close>

definition setPacketListLoopMode ::
  "bool \<Rightarrow> int \<Rightarrow> int \<Rightarrow> PortTransmitter \<Rightarrow> PortTransmitter" where
  "setPacketListLoopMode enabled returnIndex delayUsec t =
     t\<lparr>returnToQIdx := (if enabled then returnIndex else -1), loopDelay := delayUsec\<rparr>"

subsection \<open>Building the packet list\<close>

text \<open>\<^verbatim>\<open>clearPacketList\<close>, lines 410-425.\<close>

definition clearPacketList :: "PortTransmitter \<Rightarrow> error + PortTransmitter" where
  "clearPacketList t =
     (if isRunning t then Inl (Q_ASSERT_failed A_not_isRunning)
      else Inr (setPacketListLoopMode False 0 0
             (t\<lparr>packetSequenceList := [],
                currentPacketSequence := None,
                repeatSequenceStart := -1,
                repeatSize_tx := 0,
                packetCount := 0,
                returnToQIdx := -1\<rparr>)))"

text \<open>
  \<^verbatim>\<open>loopNextPacketSet\<close>, lines 427-440. The arguments \<open>size\<close> and
  \<open>repeats\<close> are \<^verbatim>\<open>qint64\<close>. Line 431 stores \<open>repeats\<close> in the
  \<^verbatim>\<open>int\<close> member \<^verbatim>\<open>repeatCount_\<close>, which keeps its low 32 bits, read
  as signed; line 436 stores \<open>size\<close> in the unsigned 64-bit \<^verbatim>\<open>repeatSize_\<close>,
  which keeps it modulo \<open>2^64\<close>.
\<close>

definition loopNextPacketSet ::
  "int \<Rightarrow> int \<Rightarrow> int \<Rightarrow> int \<Rightarrow> PortTransmitter \<Rightarrow> PortTransmitter" where
  "loopNextPacketSet sz repeats repeatDelaySec repeatDelayNsec t =
     (let s = newPacketSequence
                \<lparr>repeatCount := sint (word_of_int repeats :: 32 word),
                 usecDelay := repeatDelaySec * 1000000 + repeatDelayNsec sdiv 1000\<rparr>
      in t\<lparr>currentPacketSequence := Some (length (packetSequenceList t)),
           repeatSequenceStart := int (length (packetSequenceList t)),
           repeatSize_tx := uint (word_of_int sz :: 64 word),
           packetCount := 0,
           packetSequenceList := packetSequenceList t @ [s]\<rparr>)"

text \<open>
  \<^verbatim>\<open>appendToPacketList\<close>, lines 442-509, in the three steps of its body.
  The header that the function fills in first (lines 448-450):
\<close>

definition mkPktHdr :: "int \<Rightarrow> int \<Rightarrow> int \<Rightarrow> pcap_pkthdr" where
  "mkPktHdr sec nsec length' =
     \<lparr> tv_sec = sec, tv_usec = nsec sdiv 1000,
       caplen = word_of_int length', len = word_of_int length' \<rparr>"

text \<open>
  Lines 452-475: when there is no current sequence or the current one has no room, close
  the current one (its \<open>usecDelay\<close> becomes the gap to the new packet) and allocate the
  next. Reading \<^verbatim>\<open>lastPacket_\<close> of a sequence that holds no packet is a null
  dereference.
\<close>

definition closeAndAllocate ::
  "Config \<Rightarrow> pcap_pkthdr \<Rightarrow> int \<Rightarrow> PortTransmitter \<Rightarrow> error + PortTransmitter" where
  "closeAndAllocate cfg pktHdr length' t =
     (let l = packetSequenceList t;
          closed =
            (case currentPacketSequence t of
               None \<Rightarrow> Inr l
             | Some c \<Rightarrow>
                 if c < length l then
                   (case lastPacket (l ! c) of
                      None \<Rightarrow> Inl NullDereference
                    | Some lp \<Rightarrow>
                        Inr (l[c := (l ! c)\<lparr>usecDelay :=
                               (tv_sec pktHdr - tv_sec lp) * 1000000
                               + (tv_usec pktHdr - tv_usec lp)\<rparr>]))
                 else Inl IndexOutOfRange)
      in case closed of
           Inl e \<Rightarrow> Inl e
         | Inr l1 \<Rightarrow>
             if hasFreeSpace cfg newPacketSequence (sizeof_pcap_pkthdr cfg + length')
             then Inr (t\<lparr>currentPacketSequence := Some (length l1),
                         packetSequenceList := l1 @ [newPacketSequence]\<rparr>)
             else Inl (Q_ASSERT_failed A_hasFreeSpace))"

definition needsNewSequence :: "Config \<Rightarrow> int \<Rightarrow> PortTransmitter \<Rightarrow> bool" where
  "needsNewSequence cfg length' t =
     (case currentPacketSequence t of
        None \<Rightarrow> True
      | Some c \<Rightarrow>
          \<not> hasFreeSpace cfg (packetSequenceList t ! c) (2 * sizeof_pcap_pkthdr cfg + length'))"

text \<open>Line 477: the record is written into the current sequence.\<close>

definition writeRecord ::
  "Config \<Rightarrow> pcap_pkthdr \<Rightarrow> uchar list \<Rightarrow> PortTransmitter \<Rightarrow> error + (bool \<times> PortTransmitter)" where
  "writeRecord cfg pktHdr packet t =
     (case currentPacketSequence t of
        None \<Rightarrow> Inl NullDereference
      | Some c \<Rightarrow>
          if c < length (packetSequenceList t) then
            (let (ret, s) = appendPacket cfg pktHdr packet (packetSequenceList t ! c)
             in Inr (\<not> ret < 0, t\<lparr>packetSequenceList := (packetSequenceList t)[c := s]\<rparr>))
          else Inl IndexOutOfRange)"

text \<open>Lines 482-506: count the packet and, when the open group is complete, close it.\<close>

definition countAndCloseGroup :: "PortTransmitter \<Rightarrow> error + PortTransmitter" where
  "countAndCloseGroup t0 =
     (let t = t0\<lparr>packetCount := packetCount t0 + 1\<rparr>;
          l = packetSequenceList t
      in if repeatSize_tx t > 0 \<and> packetCount t = repeatSize_tx t then
           if \<not> repeatSequenceStart t \<ge> 0 then
             Inl (Q_ASSERT_failed A_repeatSequenceStart_ge_0)
           else if \<not> repeatSequenceStart t < int (length l) then
             Inl (Q_ASSERT_failed A_repeatSequenceStart_lt_size)
           else
             (case currentPacketSequence t of
                None \<Rightarrow> Inl NullDereference
              | Some c \<Rightarrow>
                  if c < length l then
                    (let s = nat (repeatSequenceStart t);
                         l2 = (if c \<noteq> s then
                                 (let l1 = l[c := (l ! c)\<lparr>usecDelay := usecDelay (l ! s)\<rparr>]
                                  in l1[s := (l1 ! s)\<lparr>usecDelay := 0,
                                          repeatSize := int (length l) - repeatSequenceStart t\<rparr>])
                               else l)
                     in Inr (t\<lparr>packetSequenceList := l2,
                                repeatSize_tx := 0,
                                currentPacketSequence := None\<rparr>))
                  else Inl IndexOutOfRange)
         else Inr t)"

text \<open>Lines 452-480: make room, then write the record.\<close>

definition placeRecord ::
  "Config \<Rightarrow> pcap_pkthdr \<Rightarrow> uchar list \<Rightarrow> int \<Rightarrow> PortTransmitter
     \<Rightarrow> error + (bool \<times> PortTransmitter)" where
  "placeRecord cfg pktHdr packet length' t =
     (case (if needsNewSequence cfg length' t
            then closeAndAllocate cfg pktHdr length' t else Inr t) of
        Inl e \<Rightarrow> Inl e
      | Inr t1 \<Rightarrow> writeRecord cfg pktHdr packet t1)"

definition appendToPacketList ::
  "Config \<Rightarrow> int \<Rightarrow> int \<Rightarrow> uchar list \<Rightarrow> int \<Rightarrow> PortTransmitter
     \<Rightarrow> error + (bool \<times> PortTransmitter)" where
  "appendToPacketList cfg sec nsec packet length' t =
     (case placeRecord cfg (mkPktHdr sec nsec length') packet length' t of
        Inl e \<Rightarrow> Inl e
      | Inr (op, t2) \<Rightarrow>
          (case countAndCloseGroup t2 of
             Inl e \<Rightarrow> Inl e
           | Inr t3 \<Rightarrow> Inr (op, t3)))"

subsection \<open>Clocks\<close>

text \<open>
  \<^verbatim>\<open>TimeStamp\<close> is a \<^verbatim>\<open>struct timeval\<close> on Linux, a
  \<^verbatim>\<open>LARGE_INTEGER\<close> on Win32 and an unused \<^verbatim>\<open>int\<close> elsewhere
  (lines 34-78).
\<close>

datatype TimeStamp = Timeval int int | LargeInteger int | NoTimeStamp

text \<open>
  The macro \<^verbatim>\<open>timersub\<close> of the C library. In \<^verbatim>\<open>udiffTimeStamp\<close>
  the product with \<^verbatim>\<open>1e6\<close> is computed in double precision, which is exact for
  the values of a clock.
\<close>

definition timersub :: "int \<times> int \<Rightarrow> int \<times> int \<Rightarrow> int \<times> int" where
  "timersub a b =
     (let s = fst a - fst b; u = snd a - snd b
      in if u < 0 then (s - 1, u + 1000000) else (s, u))"

fun udiffTimeStamp :: "Config \<Rightarrow> TimeStamp \<Rightarrow> TimeStamp \<Rightarrow> int" where
  "udiffTimeStamp cfg (Timeval ssec susec) (Timeval esec eusec) =
     (let d = timersub (esec, eusec) (ssec, susec)
      in if fst d \<noteq> 0 then snd d + fst d * 1000000 else snd d)"
| "udiffTimeStamp cfg (LargeInteger s) (LargeInteger e) =
     (if e \<ge> s then (e - s) * 1000000 sdiv gTicksFreq cfg
      else s * 1000000 sdiv gTicksFreq cfg)"
| "udiffTimeStamp cfg _ _ = 0"

subsection \<open>The environment of a replay\<close>

text \<open>
  What \<^verbatim>\<open>run\<close> reads from outside: the clock, the results of the pcap send
  calls, and the \<^verbatim>\<open>stop_\<close> flag that another thread sets. Each is a function
  of how many times the worker has asked before. \<open>stopRequested env n\<close> says that
  \<^verbatim>\<open>stop()\<close> has set the flag since the worker's previous test, when the worker
  tests it for the \<open>n\<close>-th time.
\<close>

record Env =
  gettimeofday :: "nat \<Rightarrow> int \<times> int"
  QueryPerformanceCounter :: "nat \<Rightarrow> int"
  pcap_sendpacket :: "nat \<Rightarrow> int"
  pcap_sendqueue_transmit :: "nat \<Rightarrow> int"
  stopRequested :: "nat \<Rightarrow> bool"

text \<open>
  What the worker does to the outside, in order: writes of \<^verbatim>\<open>state_\<close>, calls
  of the delay function with their site, calls of the two pcap send functions with their
  results. \<open>Transmitted idx ret\<close> marks the end of one sequence-transmission of
  \<^verbatim>\<open>packetSequenceList_.at(idx)\<close> with result \<open>ret\<close> (line 606).
\<close>

datatype DelaySite = InterPacket | AfterSequence int | LoopDelay

datatype Event =
    SetState TxState
  | Udelay DelaySite int
  | SendPacket int int
  | SendQueueTransmit int int
  | Transmitted int int

text \<open>
  The worker's view: the transmitter object, the local \<^verbatim>\<open>overHead\<close> of
  \<^verbatim>\<open>run\<close> (passed by reference to \<^verbatim>\<open>sendQueueTransmit\<close>), the
  events so far and the number of readings taken from each input.
\<close>

record World =
  tx :: PortTransmitter
  overHead :: int
  events :: "Event list"
  nClock :: nat
  nSendpacket :: nat
  nSendqueue :: nat
  nStop :: nat

definition initWorld :: "PortTransmitter \<Rightarrow> World" where
  "initWorld t =
     \<lparr> tx = t, overHead = 0, events = [], nClock = 0, nSendpacket = 0, nSendqueue = 0,
       nStop = 0 \<rparr>"

definition emit :: "Event \<Rightarrow> World \<Rightarrow> World" where
  "emit e w = w\<lparr>events := events w @ [e]\<rparr>"

definition getTimeStamp :: "Config \<Rightarrow> Env \<Rightarrow> World \<Rightarrow> TimeStamp \<times> World" where
  "getTimeStamp cfg env w =
     ((case platform cfg of
         Q_OS_LINUX \<Rightarrow> Timeval (fst (gettimeofday env (nClock w))) (snd (gettimeofday env (nClock w)))
       | Q_OS_WIN32 \<Rightarrow> LargeInteger (QueryPerformanceCounter env (nClock w))
       | Q_OS_OTHER \<Rightarrow> NoTimeStamp),
      w\<lparr>nClock := nClock w + 1\<rparr>)"

text \<open>A test of \<^verbatim>\<open>stop_\<close>: the flag may have been set since the last test.\<close>

definition readStop :: "Env \<Rightarrow> World \<Rightarrow> World" where
  "readStop env w =
     w\<lparr>tx := (tx w)\<lparr>stop := stop (tx w) \<or> stopRequested env (nStop w)\<rparr>,
       nStop := nStop w + 1\<rparr>"

definition setState :: "TxState \<Rightarrow> World \<Rightarrow> World" where
  "setState s w = emit (SetState s) (w\<lparr>tx := (tx w)\<lparr>state := s\<rparr>\<rparr>)"

subsection \<open>sendQueueTransmit\<close>

text \<open>
  Lines 702-722, the \<^verbatim>\<open>if (sync)\<close> block for one record: the gap to the
  previous record, less the time already spent. It returns the new \<^verbatim>\<open>ts\<close> and
  \<^verbatim>\<open>ovrStart\<close>.
\<close>

definition syncWait ::
  "Config \<Rightarrow> Env \<Rightarrow> pcap_pkthdr \<Rightarrow> int \<times> int \<Rightarrow> TimeStamp \<Rightarrow> World
     \<Rightarrow> error + ((int \<times> int) \<times> TimeStamp \<times> World)" where
  "syncWait cfg env hdr ts ovrStart w =
     (let usec = (tv_sec hdr - fst ts) * 1000000 + (tv_usec hdr - snd ts);
          (ovrEnd, w1) = getTimeStamp cfg env w;
          w2 = w1\<lparr>overHead := overHead w1 - udiffTimeStamp cfg ovrStart ovrEnd\<rparr>
      in if \<not> overHead w2 \<le> 0 then Inl (Q_ASSERT_failed A_overHead_le_0_sendQueueTransmit)
         else
           (let usec' = usec + overHead w2;
                w3 = (if usec' > 0
                      then (emit (Udelay InterPacket usec') w2)\<lparr>overHead := 0\<rparr>
                      else w2\<lparr>overHead := usec'\<rparr>);
                (ovrStart', w4) = getTimeStamp cfg env w3
            in Inr ((tv_sec hdr, tv_usec hdr), ovrStart', w4)))"

text \<open>
  Lines 699-737, the body of the loop for one record. The result of
  \<^verbatim>\<open>pcap_sendpacket\<close> is not read by the code; the model keeps it in the event.
  The boolean of the result says that \<^verbatim>\<open>stop_\<close> was seen set after the send.
\<close>

definition sendRecord ::
  "Config \<Rightarrow> Env \<Rightarrow> int \<Rightarrow> queued_packet \<Rightarrow> int \<times> int \<Rightarrow> TimeStamp \<Rightarrow> World
     \<Rightarrow> error + (bool \<times> (int \<times> int) \<times> TimeStamp \<times> World)" where
  "sendRecord cfg env sync rec ts ovrStart w =
     (let hdr = fst rec;
          pktLen = sint (caplen hdr)
      in case (if sync \<noteq> 0 then syncWait cfg env hdr ts ovrStart w
               else Inr (ts, ovrStart, w)) of
           Inl e \<Rightarrow> Inl e
         | Inr (ts', ovrStart', w1) \<Rightarrow>
             if \<not> pktLen > 0 then Inl (Q_ASSERT_failed A_pktLen_gt_0)
             else
               (let w2 = emit (SendPacket pktLen (pcap_sendpacket env (nSendpacket w1)))
                           (w1\<lparr>nSendpacket := nSendpacket w1 + 1\<rparr>);
                    st = stats (tx w2);
                    w3 = w2\<lparr>tx := (tx w2)\<lparr>stats :=
                              st\<lparr>txPkts := txPkts st + 1,
                                 txBytes := txBytes st + word_of_int pktLen\<rparr>\<rparr>\<rparr>;
                    w4 = readStop env w3
                in Inr (stop (tx w4), ts', ovrStart', w4)))"

text \<open>
  Lines 697-740, the loop over the records of the queue: \<open>-2\<close> as soon as the stop flag
  is seen, \<open>0\<close> at the end of the buffer.
\<close>

fun sendQueueTransmit_loop ::
  "Config \<Rightarrow> Env \<Rightarrow> int \<Rightarrow> queued_packet list \<Rightarrow> int \<times> int \<Rightarrow> TimeStamp \<Rightarrow> World
     \<Rightarrow> error + (int \<times> World)" where
  "sendQueueTransmit_loop cfg env sync [] ts ovrStart w = Inr (0, w)"
| "sendQueueTransmit_loop cfg env sync (rec # rest) ts ovrStart w =
     (case sendRecord cfg env sync rec ts ovrStart w of
        Inl e \<Rightarrow> Inl e
      | Inr (stopped, ts', ovrStart', w') \<Rightarrow>
          if stopped then Inr (-2, w')
          else sendQueueTransmit_loop cfg env sync rest ts' ovrStart' w')"

definition sendQueueTransmit ::
  "Config \<Rightarrow> Env \<Rightarrow> queued_packet list \<Rightarrow> int \<Rightarrow> World \<Rightarrow> error + (int \<times> World)" where
  "sendQueueTransmit cfg env queue sync w =
     (let ts = (case queue of [] \<Rightarrow> (0, 0) | rec # _ \<Rightarrow> (tv_sec (fst rec), tv_usec (fst rec)));
          (ovrStart, w1) = getTimeStamp cfg env w
      in sendQueueTransmit_loop cfg env sync queue ts ovrStart w1)"

subsection \<open>The replay loop of run\<close>

definition kSyncTransmit :: int where
  "kSyncTransmit = 1"

text \<open>
  Lines 579-596, Win32 only: a sequence of at most one second goes to the kernel in one
  call of \<^verbatim>\<open>pcap_sendqueue_transmit\<close>.
\<close>

definition fastPath ::
  "Config \<Rightarrow> Env \<Rightarrow> int \<Rightarrow> PacketSequence \<Rightarrow> World \<Rightarrow> error + (int \<times> World)" where
  "fastPath cfg env idx sq w =
     (let (ovrStart, w1) = getTimeStamp cfg env w;
          ret = pcap_sendqueue_transmit env (nSendqueue w1);
          w2 = emit (SendQueueTransmit idx ret) (w1\<lparr>nSendqueue := nSendqueue w1 + 1\<rparr>)
      in case (if ret \<ge> 0 then
                 (let st = stats (tx w2);
                      w3 = w2\<lparr>tx := (tx w2)\<lparr>stats :=
                                st\<lparr>txPkts := txPkts st + word_of_int (packets sq),
                                   txBytes := txBytes st + word_of_int (bytes sq)\<rparr>\<rparr>\<rparr>;
                      (ovrEnd, w4) = getTimeStamp cfg env w3;
                      w5 = w4\<lparr>overHead := overHead w4 + (usecDuration sq
                                  - udiffTimeStamp cfg ovrStart ovrEnd)\<rparr>
                  in if overHead w5 \<le> 0 then Inr w5
                     else Inl (Q_ASSERT_failed A_overHead_le_0_fastpath))
               else Inr w2) of
           Inl e \<Rightarrow> Inl e
         | Inr w6 \<Rightarrow>
             (let w7 = readStop env w6
              in Inr (if stop (tx w7) then -2 else ret, w7)))"

text \<open>Lines 574-605: one sequence-transmission of \<^verbatim>\<open>packetSequenceList_.at(idx)\<close>.\<close>

definition transmitSequence ::
  "Config \<Rightarrow> Env \<Rightarrow> int \<Rightarrow> World \<Rightarrow> error + (int \<times> World)" where
  "transmitSequence cfg env idx w =
     (let l = packetSequenceList (tx w)
      in if idx < 0 \<or> idx \<ge> int (length l) then Inl IndexOutOfRange
         else
           (let sq = l ! nat idx
            in if platform cfg = Q_OS_WIN32 \<and> usecDuration sq \<le> 1000000
               then fastPath cfg env idx sq w
               else sendQueueTransmit cfg env (sendQueue sq) kSyncTransmit w))"

text \<open>
  Lines 574-625, the body of the \<^verbatim>\<open>k\<close> loop: transmit the sequence, then on
  success observe its \<open>usecDelay\<close> less the overhead, and on a negative result clear
  \<^verbatim>\<open>stop_\<close> and leave by \<^verbatim>\<open>goto _exit\<close>. The boolean of the result says
  that the exit was taken.
\<close>

definition sequenceIteration ::
  "Config \<Rightarrow> Env \<Rightarrow> int \<Rightarrow> World \<Rightarrow> error + (bool \<times> World)" where
  "sequenceIteration cfg env idx w =
     (case transmitSequence cfg env idx w of
        Inl e \<Rightarrow> Inl e
      | Inr (ret, w1) \<Rightarrow>
          (let w2 = emit (Transmitted idx ret) w1
           in if ret \<ge> 0 then
                (let usecs = usecDelay (packetSequenceList (tx w2) ! nat idx) + overHead w2
                 in if usecs > 0
                    then Inr (False, (emit (Udelay (AfterSequence idx) usecs) w2)\<lparr>overHead := 0\<rparr>)
                    else Inr (False, w2\<lparr>overHead := usecs\<rparr>))
              else Inr (True, w2\<lparr>tx := (tx w2)\<lparr>stop := False\<rparr>\<rparr>)))"

text \<open>
  A counted \<^verbatim>\<open>for\<close> loop whose body may leave by \<^verbatim>\<open>goto _exit\<close>: the
  bodies run in order until one takes the exit or the program ends.
\<close>

fun iterate ::
  "('a \<Rightarrow> World \<Rightarrow> error + (bool \<times> World)) \<Rightarrow> 'a list \<Rightarrow> World \<Rightarrow> error + (bool \<times> World)" where
  "iterate body [] w = Inr (False, w)"
| "iterate body (x # xs) w =
     (case body x w of
        Inl e \<Rightarrow> Inl e
      | Inr (exit, w') \<Rightarrow> if exit then Inr (True, w') else iterate body xs w')"

text \<open>Lines 572-625: \<^verbatim>\<open>for (int k = 0; k < rptSz; k++)\<close>.\<close>

definition forK :: "Config \<Rightarrow> Env \<Rightarrow> int \<Rightarrow> int \<Rightarrow> World \<Rightarrow> error + (bool \<times> World)" where
  "forK cfg env i rptSz w =
     iterate (\<lambda>k. sequenceIteration cfg env (i + int k)) [0..<nat rptSz] w"

text \<open>Lines 570-626: \<^verbatim>\<open>for (int j = 0; j < rptCnt; j++)\<close>.\<close>

definition forJ :: "Config \<Rightarrow> Env \<Rightarrow> int \<Rightarrow> int \<Rightarrow> int \<Rightarrow> World \<Rightarrow> error + (bool \<times> World)" where
  "forJ cfg env i rptSz rptCnt w =
     iterate (\<lambda>j. forK cfg env i rptSz) [0..<nat rptCnt] w"

text \<open>
  The result of a worker that may loop for ever: it returned, it ended the program, or the
  fuel ran out while it was still looping (with the world it had reached).
\<close>

datatype 'a Outcome = Returned 'a | Crashed error | StillRunning 'a

text \<open>Lines 634-642: the delay between two passes of the outer loop.\<close>

definition observeLoopDelay :: "World \<Rightarrow> World" where
  "observeLoopDelay w =
     (let usecs = loopDelay (tx w) + overHead w
      in if usecs > 0 then (emit (Udelay LoopDelay usecs) w)\<lparr>overHead := 0\<rparr>
         else w\<lparr>overHead := usecs\<rparr>)"

text \<open>
  Lines 563-646 from the label \<^verbatim>\<open>_restart\<close> with index \<open>i\<close>: one repeat group,
  then \<^verbatim>\<open>i += rptSz\<close>, the test of the \<^verbatim>\<open>while\<close>, and at the end of the
  list the jump back to \<^verbatim>\<open>returnToQIdx_\<close>, which enters the loop body without
  the test. One unit of fuel is one pass through the label. The result is the world at
  \<^verbatim>\<open>_exit\<close>.
\<close>

fun restart :: "Config \<Rightarrow> Env \<Rightarrow> nat \<Rightarrow> int \<Rightarrow> World \<Rightarrow> World Outcome" where
  "restart cfg env 0 i w = StillRunning w"
| "restart cfg env (Suc n) i w =
     (let l = packetSequenceList (tx w)
      in if i < 0 \<or> i \<ge> int (length l) then Crashed IndexOutOfRange
         else
           (let rptSz = repeatSize (l ! nat i);
                rptCnt = repeatCount (l ! nat i)
            in case forJ cfg env i rptSz rptCnt w of
                 Inl e \<Rightarrow> Crashed e
               | Inr (exit, w1) \<Rightarrow>
                   if exit then Returned w1
                   else if i + rptSz < int (length (packetSequenceList (tx w1)))
                   then restart cfg env n (i + rptSz) w1
                   else if returnToQIdx (tx w1) \<ge> 0
                   then restart cfg env n (returnToQIdx (tx w1)) (observeLoopDelay w1)
                   else Returned w1))"

text \<open>\<^verbatim>\<open>PortTransmitter::run\<close>, lines 527-650.\<close>

definition run :: "Config \<Rightarrow> Env \<Rightarrow> nat \<Rightarrow> PortTransmitter \<Rightarrow> World Outcome" where
  "run cfg env fuel t =
     (let w = initWorld t
      in if int (length (packetSequenceList t)) \<le> 0 then Returned (setState kFinished w)
         else
           (case restart cfg env fuel 0 (setState kRunning w) of
              Returned w1 \<Rightarrow> Returned (setState kFinished w1)
            | Crashed e \<Rightarrow> Crashed e
            | StillRunning w1 \<Rightarrow> StillRunning w1))"

text \<open>
  \<^verbatim>\<open>PortTransmitter::start\<close>, lines 652-665: the caller sets
  \<^verbatim>\<open>kNotStarted\<close>, launches the worker and polls until the worker has written
  another state.
\<close>

definition start :: "Config \<Rightarrow> Env \<Rightarrow> nat \<Rightarrow> PortTransmitter \<Rightarrow> World Outcome" where
  "start cfg env fuel t =
     (if state t = kRunning then Returned (initWorld t)
      else run cfg env fuel (t\<lparr>state := kNotStarted\<rparr>))"

subsection \<open>The port monitor\<close>

datatype Direction = kDirectionRx | kDirectionTx

record PortMonitor =
  direction :: Direction
  isDirectional :: bool

text \<open>
  Lines 297-335, the body of the monitor's loop for the result \<open>ret\<close> of
  \<^verbatim>\<open>pcap_next_ex\<close> and the header it delivered.
\<close>

definition monitorRead ::
  "PortMonitor \<Rightarrow> int \<Rightarrow> pcap_pkthdr \<Rightarrow> PortStats \<Rightarrow> error + PortStats" where
  "monitorRead m ret hdr st =
     (if ret = 1 then
        (case direction m of
           kDirectionRx \<Rightarrow>
             Inr (st\<lparr>rxPkts := rxPkts st + 1, rxBytes := rxBytes st + ucast (len hdr)\<rparr>)
         | kDirectionTx \<Rightarrow>
             if isDirectional m
             then Inr (st\<lparr>txPkts := txPkts st + 1, txBytes := txBytes st + ucast (len hdr)\<rparr>)
             else Inr st)
      else if ret = 0 then Inr st
      else if ret = -1 then Inr st
      else if ret = -2 then Inr st
      else Inl (qFatal_unexpected ret))"

text \<open>
  \<^verbatim>\<open>PortMonitor::run\<close>, lines 289-337, over the reads the environment delivers.
  Each read comes with the value of \<^verbatim>\<open>stop_\<close> that the loop test sees before it.
\<close>

fun PortMonitor_run ::
  "PortMonitor \<Rightarrow> (bool \<times> int \<times> pcap_pkthdr) list \<Rightarrow> PortStats \<Rightarrow> PortStats Outcome" where
  "PortMonitor_run m [] st = StillRunning st"
| "PortMonitor_run m ((stopSeen, ret, hdr) # reads) st =
     (if stopSeen then Returned st
      else (case monitorRead m ret hdr st of
              Inl e \<Rightarrow> Crashed e
            | Inr st' \<Rightarrow> PortMonitor_run m reads st'))"

subsection \<open>Concrete inputs\<close>

definition noStats :: PortStats where
  "noStats = \<lparr> rxPkts = 0, rxBytes = 0, txPkts = 0, txBytes = 0 \<rparr>"

text \<open>A transmitter with a cleared list that has not run.\<close>

definition idleTransmitter :: PortTransmitter where
  "idleTransmitter =
     \<lparr> packetSequenceList = [], currentPacketSequence = None, repeatSequenceStart = -1,
       repeatSize_tx = 0, packetCount = 0, returnToQIdx = -1, loopDelay = 0,
       state = kNotStarted, stop = False, stats = noStats \<rparr>"

text \<open>A small build: 16-byte headers and send queues of 100 bytes.\<close>

definition smallLinux :: Config where
  "smallLinux =
     \<lparr> sizeof_pcap_pkthdr = 16, sendQueueMaxLen = 100, platform = Q_OS_LINUX,
       gTicksFreq = 1000000 \<rparr>"

definition smallWin32 :: Config where
  "smallWin32 =
     \<lparr> sizeof_pcap_pkthdr = 16, sendQueueMaxLen = 200, platform = Q_OS_WIN32,
       gTicksFreq = 1000000 \<rparr>"

text \<open>Sequencing of the building calls: the first failure ends the script.\<close>

definition andThen ::
  "error + PortTransmitter \<Rightarrow> (PortTransmitter \<Rightarrow> error + PortTransmitter)
     \<Rightarrow> error + PortTransmitter" where
  "andThen r f = (case r of Inl e \<Rightarrow> Inl e | Inr t \<Rightarrow> f t)"

definition append' ::
  "Config \<Rightarrow> int \<Rightarrow> int \<Rightarrow> int \<Rightarrow> PortTransmitter \<Rightarrow> error + PortTransmitter" where
  "append' cfg sec nsec length' t =
     (case appendToPacketList cfg sec nsec (replicate (nat length') 0) length' t of
        Inl e \<Rightarrow> Inl e
      | Inr (op, t') \<Rightarrow> Inr t')"

definition build :: "error + PortTransmitter \<Rightarrow> PortTransmitter" where
  "build r = (case r of Inl e \<Rightarrow> idleTransmitter | Inr t \<Rightarrow> t)"

text \<open>One packet of 60 bytes at time 0.\<close>

definition onePacket :: PortTransmitter where
  "onePacket = build (append' smallLinux 0 0 60 idleTransmitter)"

text \<open>A second packet 50 microseconds later; it does not fit the first sequence.\<close>

definition twoSequences :: PortTransmitter where
  "twoSequences = build (append' smallLinux 0 50000 60 onePacket)"

text \<open>
  A group of two packets, three times, one millisecond apart: after the first packet, and
  complete.
\<close>

definition groupHalf :: PortTransmitter where
  "groupHalf =
     build (append' smallLinux 0 0 60 (loopNextPacketSet 2 3 0 1000000 idleTransmitter))"

definition groupOfTwo :: PortTransmitter where
  "groupOfTwo = build (append' smallLinux 0 50000 60 groupHalf)"

text \<open>Two packets half a second apart in one sequence, for the Win32 build.\<close>

definition halfSecondPair :: PortTransmitter where
  "halfSecondPair =
     build (andThen (append' smallWin32 0 0 60 idleTransmitter)
              (append' smallWin32 0 500000000 60))"

text \<open>
  An environment in which every send succeeds, nobody asks to stop, and the clock advances
  by one microsecond (ten ticks on Win32) per reading.
\<close>

definition quietEnv :: Env where
  "quietEnv =
     \<lparr> gettimeofday = (\<lambda>n. (0, int n)),
       QueryPerformanceCounter = (\<lambda>n. 10 * int n),
       pcap_sendpacket = (\<lambda>n. 0),
       pcap_sendqueue_transmit = (\<lambda>n. 152),
       stopRequested = (\<lambda>n. False) \<rparr>"

definition hdr60 :: pcap_pkthdr where
  "hdr60 = \<lparr> tv_sec = 0, tv_usec = 0, caplen = 60, len = 64 \<rparr>"

subsection \<open>Reading the events\<close>

text \<open>The sends that succeeded: \<^verbatim>\<open>pcap_sendpacket\<close> returns 0 on success.\<close>

definition successfulSends :: "Event list \<Rightarrow> nat" where
  "successfulSends evs =
     length (filter (\<lambda>e. case e of SendPacket n r \<Rightarrow> r \<ge> 0 | _ \<Rightarrow> False) evs)"

text \<open>The sequence-transmissions, by index, in order.\<close>

fun transmissions :: "Event list \<Rightarrow> int list" where
  "transmissions [] = []"
| "transmissions (Transmitted idx ret # evs) = idx # transmissions evs"
| "transmissions (e # evs) = transmissions evs"

text \<open>
  The sequence-transmissions and the waits that follow a sequence, without the events
  inside a sequence.
\<close>

datatype Mark = Tx int | Wait int int

fun marks :: "Event list \<Rightarrow> Mark list" where
  "marks [] = []"
| "marks (Transmitted idx ret # evs) = Tx idx # marks evs"
| "marks (Udelay (AfterSequence idx) d # evs) = Wait idx d # marks evs"
| "marks (e # evs) = marks evs"

text \<open>
  \<open>follows delay idxs ms\<close>: the marks are the transmissions of \<open>idxs\<close> in order, each
  followed by nothing or by one wait, which is for that same sequence, positive and at most
  \<open>delay\<close> of that sequence.
\<close>

fun follows :: "(int \<Rightarrow> int) \<Rightarrow> int list \<Rightarrow> Mark list \<Rightarrow> bool" where
  "follows delay [] ms = (ms = [])"
| "follows delay (i # is) (Tx a # Wait b d # ms) =
     (a = i \<and> b = i \<and> 0 < d \<and> d \<le> delay i \<and> follows delay is ms)"
| "follows delay (i # is) (Tx a # ms) = (a = i \<and> follows delay is ms)"
| "follows delay (i # is) ms = False"








text \<open>A sequence-transmission that returned an error.\<close>

definition failed :: "Event \<Rightarrow> bool" where
  "failed e = (case e of Transmitted idx ret \<Rightarrow> ret < 0 | _ \<Rightarrow> False)"

subsection \<open>Relations between two worlds of a replay\<close>

text \<open>
  \<open>quietStep w w'\<close>: from \<open>w\<close> to \<open>w'\<close> the worker added only events inside a
  sequence and left the list and the loop settings alone.
\<close>

definition quietStep :: "World \<Rightarrow> World \<Rightarrow> bool" where
  "quietStep w w' \<longleftrightarrow>
     (\<exists>new. events w' = events w @ new \<and> marks new = []) \<and>
     packetSequenceList (tx w') = packetSequenceList (tx w) \<and>
     returnToQIdx (tx w') = returnToQIdx (tx w) \<and>
     loopDelay (tx w') = loopDelay (tx w) \<and>
     state (tx w') = state (tx w)"

text \<open>\<open>running_on w w'\<close>: no sequence-transmission failed between \<open>w\<close> and \<open>w'\<close>.\<close>

definition running_on :: "World \<Rightarrow> World \<Rightarrow> bool" where
  "running_on w w' \<longleftrightarrow> (\<exists>new. events w' = events w @ new \<and> filter failed new = [])"

text \<open>
  \<open>aborted_from w w'\<close>: the last thing that happened between \<open>w\<close> and \<open>w'\<close> is the
  first failed sequence-transmission, and \<^verbatim>\<open>stop_\<close> is clear.
\<close>

definition aborted_from :: "World \<Rightarrow> World \<Rightarrow> bool" where
  "aborted_from w w' \<longleftrightarrow>
     (\<exists>new idx ret. events w' = events w @ new @ [Transmitted idx ret] \<and> ret < 0 \<and>
        filter failed new = [] \<and> \<not> stop (tx w'))"

subsection \<open>Concrete replays\<close>

text \<open>The group after the second packet is placed, before the group is closed.\<close>

definition groupPlaced :: PortTransmitter where
  "groupPlaced =
     (case placeRecord smallLinux (mkPktHdr 0 50000 60) (replicate 60 0) 60 groupHalf of
        Inl e \<Rightarrow> idleTransmitter | Inr p \<Rightarrow> snd p)"




text \<open>An environment in which \<^verbatim>\<open>stop()\<close> is called during the first packet.\<close>

definition stopEnv :: Env where
  "stopEnv = quietEnv\<lparr>stopRequested := (\<lambda>n. True)\<rparr>"

definition outcomeWorld :: "World Outcome \<Rightarrow> World" where
  "outcomeWorld r =
     (case r of Returned w \<Rightarrow> w | StillRunning w \<Rightarrow> w | Crashed e \<Rightarrow> initWorld idleTransmitter)"

definition stoppedWorld :: World where
  "stoppedWorld = outcomeWorld (run smallLinux stopEnv (Suc 0) groupOfTwo)"

section \<open>Properties\<close>

subsection \<open>Building the packet list\<close>

text \<open>
  C8, as the code has it. The claim says that after \<^verbatim>\<open>clearPacketList\<close> the
  repeat-group start index and the return-to-queue index are zero. The code sets both to
  \<open>-1\<close>, the value that means "none": an index of zero would name the first sequence and
  would switch the outer loop on. Here: clearing a list in which a group was opened gives
  the idle transmitter, whose two indices are not zero.
\<close>

theorem clearPacketList_indices_counterexample:
  "clearPacketList (loopNextPacketSet 2 3 1 0 idleTransmitter) = Inr idleTransmitter \<and>
   repeatSequenceStart idleTransmitter \<noteq> 0 \<and> returnToQIdx idleTransmitter \<noteq> 0"
  by (simp add: clearPacketList_def setPacketListLoopMode_def isRunning_def
        loopNextPacketSet_def idleTransmitter_def Let_def)

text \<open>
  C8, amended: when the transmitter is not running, \<^verbatim>\<open>clearPacketList\<close>
  succeeds and leaves an empty list, no current sequence, a group packet counter and a
  repeat-group size of zero, the repeat-group start index and the return-to-queue index both
  \<open>-1\<close> (so the outer loop is disabled), and a loop delay of zero; the state, the stop
  flag and the statistics are untouched.
\<close>

theorem clearPacketList_resets:
  assumes "\<not> isRunning t"
  shows "\<exists>t'. clearPacketList t = Inr t' \<and> packetSequenceList t' = [] \<and>
           currentPacketSequence t' = None \<and> packetCount t' = 0 \<and> repeatSize_tx t' = 0 \<and>
           repeatSequenceStart t' = -1 \<and> returnToQIdx t' = -1 \<and> loopDelay t' = 0 \<and>
           state t' = state t \<and> stop t' = stop t \<and> stats t' = stats t"
  using assms by (simp add: clearPacketList_def setPacketListLoopMode_def)

theorem clearPacketList_resets_witness:
  "\<not> isRunning (loopNextPacketSet 2 3 1 0 idleTransmitter) \<and>
   (\<exists>t'. clearPacketList (loopNextPacketSet 2 3 1 0 idleTransmitter) = Inr t' \<and>
      packetSequenceList t' = [] \<and> currentPacketSequence t' = None \<and> packetCount t' = 0 \<and>
      repeatSize_tx t' = 0 \<and> repeatSequenceStart t' = -1 \<and> returnToQIdx t' = -1 \<and>
      loopDelay t' = 0)"
proof -
  have nr: "\<not> isRunning (loopNextPacketSet 2 3 1 0 idleTransmitter)"
    by (simp add: isRunning_def loopNextPacketSet_def idleTransmitter_def Let_def)
  from clearPacketList_resets [OF nr] show ?thesis using nr by blast
qed




lemma closeAndAllocate_fields:
  "closeAndAllocate cfg h n t = Inr t1 \<Longrightarrow>
     repeatSize_tx t1 = repeatSize_tx t \<and> packetCount t1 = packetCount t \<and>
     repeatSequenceStart t1 = repeatSequenceStart t"
  by (auto simp: closeAndAllocate_def Let_def split: option.splits if_splits sum.splits)

lemma writeRecord_fields:
  "writeRecord cfg h p t = Inr (op, t2) \<Longrightarrow>
     repeatSize_tx t2 = repeatSize_tx t \<and> packetCount t2 = packetCount t \<and>
     repeatSequenceStart t2 = repeatSequenceStart t \<and>
     currentPacketSequence t2 = currentPacketSequence t \<and>
     length (packetSequenceList t2) = length (packetSequenceList t) \<and>
     (\<exists>c. currentPacketSequence t = Some c \<and> c < length (packetSequenceList t) \<and>
          packetSequenceList t2 =
            (packetSequenceList t)[c := snd (appendPacket cfg h p (packetSequenceList t ! c))])"
  by (auto simp: writeRecord_def Let_def split: option.splits if_splits prod.splits)

lemma placeRecord_fields:
  "placeRecord cfg h p n t = Inr (op, t2) \<Longrightarrow>
     repeatSize_tx t2 = repeatSize_tx t \<and> packetCount t2 = packetCount t \<and>
     repeatSequenceStart t2 = repeatSequenceStart t"
  by (auto simp: placeRecord_def split: sum.splits if_splits
        dest!: closeAndAllocate_fields writeRecord_fields)

text \<open>
  C4: in \<^verbatim>\<open>appendToPacketList(sec, nsec, bytes, len)\<close>, when there is no current
  sequence or the current one cannot take one more record, and the call returns, then
  lines 452-475 have run: the current sequence, if there is one, has its \<open>usecDelay\<close>
  set to the gap in microseconds between the new packet's timestamp and the timestamp of
  its own last packet, every other sequence is unchanged, a fresh sequence is appended and
  made current; only then is the record written, into that fresh sequence; the count of the
  packet and the closing of a group come last.
\<close>

theorem appendToPacketList_new_sequence:
  assumes need: "needsNewSequence cfg length' t"
      and ok: "appendToPacketList cfg sec nsec packet length' t = Inr (op, t')"
  shows "\<exists>t1 t2.
           closeAndAllocate cfg (mkPktHdr sec nsec length') length' t = Inr t1 \<and>
           (case currentPacketSequence t of
              None \<Rightarrow> butlast (packetSequenceList t1) = packetSequenceList t
            | Some c \<Rightarrow>
                (\<exists>lp. lastPacket (packetSequenceList t ! c) = Some lp \<and>
                   butlast (packetSequenceList t1) =
                     (packetSequenceList t)
                       [c := (packetSequenceList t ! c)
                          \<lparr>usecDelay := (sec - tv_sec lp) * 1000000
                                         + (nsec sdiv 1000 - tv_usec lp)\<rparr>])) \<and>
           length (packetSequenceList t1) = length (packetSequenceList t) + 1 \<and>
           last (packetSequenceList t1) = newPacketSequence \<and>
           currentPacketSequence t1 = Some (length (packetSequenceList t)) \<and>
           writeRecord cfg (mkPktHdr sec nsec length') packet t1 = Inr (op, t2) \<and>
           packetSequenceList t2 =
             (packetSequenceList t1)
               [length (packetSequenceList t) :=
                  snd (appendPacket cfg (mkPktHdr sec nsec length') packet newPacketSequence)] \<and>
           countAndCloseGroup t2 = Inr t'"
proof -
  let ?h = "mkPktHdr sec nsec length'"
  from ok need obtain t1 t2 where
    ca: "closeAndAllocate cfg ?h length' t = Inr t1" and
    wr: "writeRecord cfg ?h packet t1 = Inr (op, t2)" and
    cg: "countAndCloseGroup t2 = Inr t'"
    by (auto simp: appendToPacketList_def placeRecord_def split: sum.splits prod.splits)
  from ca have shape:
    "(case currentPacketSequence t of
        None \<Rightarrow> butlast (packetSequenceList t1) = packetSequenceList t
      | Some c \<Rightarrow>
          (\<exists>lp. lastPacket (packetSequenceList t ! c) = Some lp \<and>
             butlast (packetSequenceList t1) =
               (packetSequenceList t)
                 [c := (packetSequenceList t ! c)
                    \<lparr>usecDelay := (sec - tv_sec lp) * 1000000
                                   + (nsec sdiv 1000 - tv_usec lp)\<rparr>]))"
    and len: "length (packetSequenceList t1) = length (packetSequenceList t) + 1"
    and lst: "last (packetSequenceList t1) = newPacketSequence"
    and cur: "currentPacketSequence t1 = Some (length (packetSequenceList t))"
    by (auto simp: closeAndAllocate_def Let_def mkPktHdr_def
          split: option.splits if_splits sum.splits)
  from len lst have nth: "packetSequenceList t1 ! length (packetSequenceList t) = newPacketSequence"
    by (metis Suc_eq_plus1 diff_Suc_1 last_conv_nth length_0_conv nat.simps(3))
  from writeRecord_fields [OF wr] cur nth
  have l2: "packetSequenceList t2 =
      (packetSequenceList t1)
        [length (packetSequenceList t) := snd (appendPacket cfg ?h packet newPacketSequence)]"
    by auto
  from ca shape len lst cur wr l2 cg show ?thesis by blast
qed

lemma onePacket_current: "currentPacketSequence onePacket = Some 0"
  by code_simp

lemma onePacket_length: "length (packetSequenceList onePacket) = 1"
  by code_simp

theorem appendToPacketList_new_sequence_witness:
  "needsNewSequence smallLinux 60 onePacket \<and>
   appendToPacketList smallLinux 0 50000 (replicate 60 0) 60 onePacket
     = Inr (True, twoSequences) \<and>
   (\<exists>t1 t2 lp.
      closeAndAllocate smallLinux (mkPktHdr 0 50000 60) 60 onePacket = Inr t1 \<and>
      lastPacket (packetSequenceList onePacket ! 0) = Some lp \<and>
      butlast (packetSequenceList t1) =
        (packetSequenceList onePacket)
          [0 := (packetSequenceList onePacket ! 0)
             \<lparr>usecDelay := (0 - tv_sec lp) * 1000000 + (50000 sdiv 1000 - tv_usec lp)\<rparr>] \<and>
      last (packetSequenceList t1) = newPacketSequence \<and>
      currentPacketSequence t1 = Some 1 \<and>
      writeRecord smallLinux (mkPktHdr 0 50000 60) (replicate 60 0) t1 = Inr (True, t2) \<and>
      countAndCloseGroup t2 = Inr twoSequences) \<and>
   usecDelay (packetSequenceList twoSequences ! 0) = 50 \<and>
   length (packetSequenceList twoSequences) = 2 \<and>
   currentPacketSequence twoSequences = Some 1"
proof -
  have need: "needsNewSequence smallLinux 60 onePacket"
    by code_simp
  have ok: "appendToPacketList smallLinux 0 50000 (replicate 60 0) 60 onePacket
              = Inr (True, twoSequences)"
    by code_simp
  have res: "usecDelay (packetSequenceList twoSequences ! 0) = 50"
            "length (packetSequenceList twoSequences) = 2"
            "currentPacketSequence twoSequences = Some 1"
    by code_simp+
  from appendToPacketList_new_sequence [OF need ok] need ok res
  show ?thesis
    by (simp add: onePacket_current onePacket_length) blast
qed

text \<open>
  C5, as the code has it. The claim says that after the group is closed the packet counter
  is reset. The code resets the size of the open group (\<^verbatim>\<open>repeatSize_ = 0\<close>),
  which is what ends the group; \<^verbatim>\<open>packetCount_\<close> keeps its value until the next
  \<^verbatim>\<open>loopNextPacketSet\<close>. Here the second packet of a group of two closes the group
  from a second sequence, and the counter is 2 afterwards.
\<close>

theorem appendToPacketList_packetCount_counterexample:
  "repeatSize_tx groupHalf > 0 \<and>
   packetCount groupHalf + 1 = repeatSize_tx groupHalf \<and>
   appendToPacketList smallLinux 0 50000 (replicate 60 0) 60 groupHalf
     = Inr (True, groupOfTwo) \<and>
   repeatSize (packetSequenceList groupOfTwo ! 0) = 2 \<and>
   currentPacketSequence groupOfTwo = None \<and>
   packetCount groupOfTwo \<noteq> 0"
  by code_simp

text \<open>
  C5, amended: when a repeat group is open (\<open>repeatGroupSize > 0\<close>) and
  \<^verbatim>\<open>appendToPacketList\<close> brings \<open>packetCount\<close> to \<open>repeatGroupSize\<close>, the
  group is closed: if the current sequence is not the start sequence of the group, the
  start sequence's \<open>usecDelay\<close> is moved to the current sequence (the start's becomes 0)
  and the start's \<open>repeatSize\<close> becomes \<open>list.size - groupStart\<close>, which is at least 1
  and at most \<open>listLen - groupStart\<close>; if it is the start sequence the list is left as it
  is. Afterwards the size of the open group is reset to zero and the current sequence is
  closed; \<open>packetCount\<close> keeps the value it reached.
\<close>

theorem appendToPacketList_closes_group:
  assumes opn: "repeatSize_tx t > 0"
      and cnt: "packetCount t + 1 = repeatSize_tx t"
      and ok: "appendToPacketList cfg sec nsec packet length' t = Inr (op, t')"
  shows "\<exists>t2 c.
           placeRecord cfg (mkPktHdr sec nsec length') packet length' t = Inr (op, t2) \<and>
           currentPacketSequence t2 = Some c \<and>
           repeatSize_tx t' = 0 \<and> currentPacketSequence t' = None \<and>
           packetCount t' = repeatSize_tx t \<and>
           length (packetSequenceList t') = length (packetSequenceList t2) \<and>
           (let s = nat (repeatSequenceStart t);
                l2 = packetSequenceList t2;
                l' = packetSequenceList t'
            in (c \<noteq> s \<longrightarrow>
                  usecDelay (l' ! c) = usecDelay (l2 ! s) \<and>
                  usecDelay (l' ! s) = 0 \<and>
                  repeatSize (l' ! s) = int (length l') - repeatSequenceStart t \<and>
                  1 \<le> repeatSize (l' ! s) \<and>
                  repeatSize (l' ! s) \<le> int (length l') - repeatSequenceStart t) \<and>
               (c = s \<longrightarrow> l' = l2))"
proof -
  let ?h = "mkPktHdr sec nsec length'"
  from ok obtain t2 where
    pr: "placeRecord cfg ?h packet length' t = Inr (op, t2)" and
    cg: "countAndCloseGroup t2 = Inr t'"
    by (auto simp: appendToPacketList_def split: sum.splits prod.splits)
  from placeRecord_fields [OF pr] opn cnt
  have f: "repeatSize_tx t2 > 0" "packetCount t2 + 1 = repeatSize_tx t2"
          "repeatSequenceStart t2 = repeatSequenceStart t" "repeatSize_tx t2 = repeatSize_tx t"
    by auto
  from cg f obtain c where
    c: "currentPacketSequence t2 = Some c" and cl: "c < length (packetSequenceList t2)" and
    s0: "0 \<le> repeatSequenceStart t" and
    s1: "repeatSequenceStart t < int (length (packetSequenceList t2))"
    by (auto simp: countAndCloseGroup_def Let_def split: option.splits if_splits)
  from cg f c cl s0 s1 show ?thesis
    apply (intro exI [of _ t2] exI [of _ c])
    apply (auto simp: countAndCloseGroup_def Let_def pr split: option.splits if_splits)
    done
qed

theorem appendToPacketList_closes_group_witness:
  "repeatSize_tx groupHalf > 0 \<and>
   packetCount groupHalf + 1 = repeatSize_tx groupHalf \<and>
   appendToPacketList smallLinux 0 50000 (replicate 60 0) 60 groupHalf
     = Inr (True, groupOfTwo) \<and>
   placeRecord smallLinux (mkPktHdr 0 50000 60) (replicate 60 0) 60 groupHalf
     = Inr (True, groupPlaced) \<and>
   currentPacketSequence groupPlaced = Some 1 \<and>
   (1::nat) \<noteq> nat (repeatSequenceStart groupHalf) \<and>
   repeatSize_tx groupOfTwo = 0 \<and> currentPacketSequence groupOfTwo = None \<and>
   packetCount groupOfTwo = repeatSize_tx groupHalf \<and>
   usecDelay (packetSequenceList groupOfTwo ! 1) = usecDelay (packetSequenceList groupPlaced ! 0) \<and>
   usecDelay (packetSequenceList groupOfTwo ! 0) = 0 \<and>
   repeatSize (packetSequenceList groupOfTwo ! 0) = 2 \<and>
   1 \<le> repeatSize (packetSequenceList groupOfTwo ! 0)"
proof -
  have opn: "repeatSize_tx groupHalf > 0"
    by code_simp
  have cnt: "packetCount groupHalf + 1 = repeatSize_tx groupHalf"
    by code_simp
  have ok: "appendToPacketList smallLinux 0 50000 (replicate 60 0) 60 groupHalf
              = Inr (True, groupOfTwo)"
    by code_simp
  have pl: "placeRecord smallLinux (mkPktHdr 0 50000 60) (replicate 60 0) 60 groupHalf
              = Inr (True, groupPlaced)"
    by code_simp
  have cur: "currentPacketSequence groupPlaced = Some 1"
    by code_simp
  have st: "repeatSequenceStart groupHalf = 0"
    by code_simp
  have len: "length (packetSequenceList groupOfTwo) = 2"
    by code_simp
  from appendToPacketList_closes_group [OF opn cnt ok] opn cnt ok pl cur st len
  show ?thesis
    by (auto simp: Let_def)
qed

subsection \<open>The port monitor\<close>

text \<open>
  C9: in the monitor's loop, a successfully read packet (\<^verbatim>\<open>pcap_next_ex\<close>
  returns 1) adds 1 to \<open>rxPkts\<close> and the wire length to \<open>rxBytes\<close> when the
  monitor's direction is Rx; adds 1 to \<open>txPkts\<close> and the wire length to \<open>txBytes\<close>
  when the direction is Tx and the monitor is directional; and changes no counter when the
  direction is Tx and the monitor is not directional. The loop then goes on with the next
  read.
\<close>

theorem monitor_counts_packet:
  "(direction m = kDirectionRx \<longrightarrow>
      PortMonitor_run m ((False, 1, hdr) # reads) st =
      PortMonitor_run m reads
        (st\<lparr>rxPkts := rxPkts st + 1, rxBytes := rxBytes st + ucast (len hdr)\<rparr>)) \<and>
   (direction m = kDirectionTx \<and> isDirectional m \<longrightarrow>
      PortMonitor_run m ((False, 1, hdr) # reads) st =
      PortMonitor_run m reads
        (st\<lparr>txPkts := txPkts st + 1, txBytes := txBytes st + ucast (len hdr)\<rparr>)) \<and>
   (direction m = kDirectionTx \<and> \<not> isDirectional m \<longrightarrow>
      PortMonitor_run m ((False, 1, hdr) # reads) st = PortMonitor_run m reads st)"
  by (simp add: monitorRead_def)

theorem monitor_counts_packet_witness:
  "direction \<lparr>direction = kDirectionRx, isDirectional = True\<rparr> = kDirectionRx \<and>
   PortMonitor_run \<lparr>direction = kDirectionRx, isDirectional = True\<rparr> [(False, 1, hdr60)] noStats
     = StillRunning \<lparr> rxPkts = 1, rxBytes = 64, txPkts = 0, txBytes = 0 \<rparr> \<and>
   direction \<lparr>direction = kDirectionTx, isDirectional = True\<rparr> = kDirectionTx \<and>
   isDirectional \<lparr>direction = kDirectionTx, isDirectional = True\<rparr> \<and>
   PortMonitor_run \<lparr>direction = kDirectionTx, isDirectional = True\<rparr> [(False, 1, hdr60)] noStats
     = StillRunning \<lparr> rxPkts = 0, rxBytes = 0, txPkts = 1, txBytes = 64 \<rparr> \<and>
   direction \<lparr>direction = kDirectionTx, isDirectional = False\<rparr> = kDirectionTx \<and>
   \<not> isDirectional \<lparr>direction = kDirectionTx, isDirectional = False\<rparr> \<and>
   PortMonitor_run \<lparr>direction = kDirectionTx, isDirectional = False\<rparr> [(False, 1, hdr60)] noStats
     = StillRunning noStats"
  using monitor_counts_packet [of "\<lparr>direction = kDirectionRx, isDirectional = True\<rparr>" hdr60 "[]" noStats]
        monitor_counts_packet [of "\<lparr>direction = kDirectionTx, isDirectional = True\<rparr>" hdr60 "[]" noStats]
        monitor_counts_packet [of "\<lparr>direction = kDirectionTx, isDirectional = False\<rparr>" hdr60 "[]" noStats]
  by (simp add: hdr60_def noStats_def)

subsection \<open>What a sequence-transmission adds to the events\<close>

lemma marks_append: "marks (xs @ ys) = marks xs @ marks ys"
  by (induction xs rule: marks.induct) simp_all



lemma marks_Nil_quiet: "marks xs = [] \<Longrightarrow> transmissions xs = [] \<and> filter failed xs = []"
  by (induction xs rule: marks.induct) (simp_all add: failed_def)

lemma quietStep_refl: "quietStep w w"
  by (simp add: quietStep_def)

lemma quietStep_trans: "quietStep w w1 \<Longrightarrow> quietStep w1 w2 \<Longrightarrow> quietStep w w2"
  by (auto simp: quietStep_def marks_append)

lemma getTimeStamp_quiet: "getTimeStamp cfg env w = (s, w') \<Longrightarrow> quietStep w w'"
  by (auto simp: getTimeStamp_def quietStep_def)

lemma syncWait_quiet:
  "syncWait cfg env hdr ts ovrStart w = Inr (ts', ovrStart', w') \<Longrightarrow> quietStep w w'"
  by (auto simp: syncWait_def Let_def getTimeStamp_def quietStep_def emit_def
        split: prod.splits if_splits)

lemma sendRecord_quiet:
  "sendRecord cfg env sync rec ts ovrStart w = Inr (stopped, ts', ovrStart', w') \<Longrightarrow>
     quietStep w w'"
  apply (auto simp: sendRecord_def Let_def split: sum.splits if_splits prod.splits
         dest!: syncWait_quiet)
   apply (auto simp: quietStep_def emit_def readStop_def marks_append)
  done

lemma sendQueueTransmit_loop_quiet:
  "sendQueueTransmit_loop cfg env sync q ts ovrStart w = Inr (ret, w') \<Longrightarrow> quietStep w w'"
proof (induction q arbitrary: ts ovrStart w)
  case Nil
  then show ?case by (simp add: quietStep_refl)
next
  case (Cons rec rest)
  then show ?case
    by (auto split: sum.splits prod.splits if_splits
          dest!: sendRecord_quiet intro: quietStep_trans)
qed

lemma sendQueueTransmit_quiet:
  "sendQueueTransmit cfg env q sync w = Inr (ret, w') \<Longrightarrow> quietStep w w'"
  by (auto simp: sendQueueTransmit_def Let_def split: prod.splits
        dest!: getTimeStamp_quiet sendQueueTransmit_loop_quiet intro: quietStep_trans)

lemma fastPath_quiet:
  "fastPath cfg env idx sq w = Inr (ret, w') \<Longrightarrow> quietStep w w'"
  by (auto simp: fastPath_def Let_def getTimeStamp_def quietStep_def emit_def readStop_def
        split: prod.splits if_splits sum.splits)

lemma transmitSequence_quiet:
  "transmitSequence cfg env idx w = Inr (ret, w') \<Longrightarrow> quietStep w w'"
  by (auto simp: transmitSequence_def Let_def split: if_splits
        dest: fastPath_quiet sendQueueTransmit_quiet)

subsection \<open>What a complete sequence-transmission puts on the handle\<close>




subsection \<open>The repeat loops\<close>







lemma follows_Tx_Wait:
  "follows dl is ms \<Longrightarrow> 0 < d \<Longrightarrow> d \<le> dl i \<Longrightarrow> follows dl (i # is) (Tx i # Wait i d # ms)"
  by simp






lemma sequenceIteration_aborts:
  assumes "sequenceIteration cfg env idx w = Inr (True, w')"
  shows "aborted_from w w'"
proof -
  from assms obtain ret w1 where
    t: "transmitSequence cfg env idx w = Inr (ret, w1)" and r: "ret < 0"
    by (auto simp: sequenceIteration_def Let_def split: sum.splits prod.splits if_splits)
  from transmitSequence_quiet [OF t] obtain new where
    n: "events w1 = events w @ new" "marks new = []"
    by (auto simp: quietStep_def)
  from marks_Nil_quiet [OF n(2)] have q: "filter failed new = []" by simp
  from assms t r n q show ?thesis
    by (auto simp: sequenceIteration_def Let_def emit_def aborted_from_def)
qed









subsection \<open>A failed transmission ends the replay\<close>

lemma running_on_refl: "running_on w w"
  by (simp add: running_on_def)

lemma running_on_trans: "running_on w w1 \<Longrightarrow> running_on w1 w2 \<Longrightarrow> running_on w w2"
  by (auto simp: running_on_def)

lemma running_on_aborted: "running_on w w1 \<Longrightarrow> aborted_from w1 w2 \<Longrightarrow> aborted_from w w2"
  by (auto simp: running_on_def aborted_from_def)

lemma sequenceIteration_running:
  assumes "sequenceIteration cfg env idx w = Inr (False, w')"
  shows "running_on w w'"
proof -
  from assms obtain ret w1 where
    t: "transmitSequence cfg env idx w = Inr (ret, w1)" and r: "0 \<le> ret"
    by (auto simp: sequenceIteration_def Let_def split: sum.splits prod.splits if_splits)
  from transmitSequence_quiet [OF t] obtain new where
    n: "events w1 = events w @ new" "marks new = []"
    by (auto simp: quietStep_def)
  from marks_Nil_quiet [OF n(2)] have q: "filter failed new = []" by simp
  from assms t r n q show ?thesis
    by (auto simp: sequenceIteration_def Let_def emit_def running_on_def failed_def
          split: if_splits)
qed

lemma iterate_outcome:
  assumes body: "\<And>x w w'. body x w = Inr (False, w') \<Longrightarrow> running_on w w'"
                "\<And>x w w'. body x w = Inr (True, w') \<Longrightarrow> aborted_from w w'"
  shows "iterate body xs w = Inr (False, w') \<Longrightarrow> running_on w w'"
    and "iterate body xs w = Inr (True, w') \<Longrightarrow> aborted_from w w'"
proof (induction xs arbitrary: w)
  case Nil
  { case 1 then show ?case by (simp add: running_on_refl) }
  { case 2 then show ?case by simp }
next
  case (Cons x xs)
  { case 1
    then obtain w1 where "body x w = Inr (False, w1)" "iterate body xs w1 = Inr (False, w')"
      by (auto split: sum.splits prod.splits if_splits)
    then show ?case using body(1) Cons.IH(1) running_on_trans by blast }
  { case 2
    then consider "body x w = Inr (True, w')"
      | w1 where "body x w = Inr (False, w1)" "iterate body xs w1 = Inr (True, w')"
      by (auto split: sum.splits prod.splits if_splits)
    then show ?case
    proof cases
      case 1 then show ?thesis by (rule body(2))
    next
      case 2 then show ?thesis using body(1) Cons.IH(2) running_on_aborted by blast
    qed }
qed

lemma forK_outcome:
  "forK cfg env i rptSz w = Inr (False, w') \<Longrightarrow> running_on w w'"
  "forK cfg env i rptSz w = Inr (True, w') \<Longrightarrow> aborted_from w w'"
  unfolding forK_def
  by (erule iterate_outcome [rotated 2]; erule sequenceIteration_running sequenceIteration_aborts)+

lemma forJ_outcome:
  "forJ cfg env i rptSz rptCnt w = Inr (False, w') \<Longrightarrow> running_on w w'"
  "forJ cfg env i rptSz rptCnt w = Inr (True, w') \<Longrightarrow> aborted_from w w'"
  unfolding forJ_def
  by (erule iterate_outcome [rotated 2]; erule forK_outcome)+

lemma observeLoopDelay_running: "running_on w (observeLoopDelay w)"
  by (simp add: observeLoopDelay_def running_on_def emit_def Let_def failed_def)

lemma restart_Suc_cases:
  assumes "restart cfg env (Suc n) i w = r"
  obtains (crash) e where "r = Crashed e"
    | (exit) w1 where
        "forJ cfg env i (repeatSize (packetSequenceList (tx w) ! nat i))
           (repeatCount (packetSequenceList (tx w) ! nat i)) w = Inr (True, w1)"
        "r = Returned w1"
    | (finish) w1 where
        "forJ cfg env i (repeatSize (packetSequenceList (tx w) ! nat i))
           (repeatCount (packetSequenceList (tx w) ! nat i)) w = Inr (False, w1)"
        "r = Returned w1"
    | (again) w1 i1 w2 where
        "forJ cfg env i (repeatSize (packetSequenceList (tx w) ! nat i))
           (repeatCount (packetSequenceList (tx w) ! nat i)) w = Inr (False, w1)"
        "running_on w1 w2" "r = restart cfg env n i1 w2"
proof -
  let ?f = "forJ cfg env i (repeatSize (packetSequenceList (tx w) ! nat i))
           (repeatCount (packetSequenceList (tx w) ! nat i)) w"
  show thesis
  proof (cases "i < 0 \<or> i \<ge> int (length (packetSequenceList (tx w)))")
    case True
    with assms show thesis by (auto intro: crash)
  next
    case inrange: False
    show thesis
    proof (cases ?f)
      case (Inl e)
      with inrange assms show thesis by (auto simp: Let_def intro: crash)
    next
      case (Inr p)
      obtain ex w1 where p: "p = (ex, w1)" by (cases p)
      show thesis
      proof (cases ex)
        case True
        with Inr p inrange assms show thesis by (auto simp: Let_def intro: exit)
      next
        case False
        with Inr p have f: "?f = Inr (False, w1)" by simp
        show thesis
        proof (cases "i + repeatSize (packetSequenceList (tx w) ! nat i)
                        < int (length (packetSequenceList (tx w1)))")
          case True
          with f inrange assms have
            "r = restart cfg env n (i + repeatSize (packetSequenceList (tx w) ! nat i)) w1"
            by (auto simp: Let_def)
          then show thesis by (rule again [OF f running_on_refl])
        next
          case nomore: False
          show thesis
          proof (cases "returnToQIdx (tx w1) \<ge> 0")
            case True
            with nomore f inrange assms have
              "r = restart cfg env n (returnToQIdx (tx w1)) (observeLoopDelay w1)"
              by (auto simp: Let_def)
            then show thesis by (rule again [OF f observeLoopDelay_running])
          next
            case False
            with nomore f inrange assms have "r = Returned w1" by (auto simp: Let_def)
            with f show thesis by (rule finish)
          qed
        qed
      qed
    qed
  qed
qed

lemma restart_outcome:
  "restart cfg env n i w = StillRunning w' \<Longrightarrow> running_on w w'"
  "restart cfg env n i w = Returned w' \<Longrightarrow> running_on w w' \<or> aborted_from w w'"
proof (induction n arbitrary: i w)
  case 0
  { case 1 then show ?case by (simp add: running_on_refl) }
  { case 2 then show ?case by simp }
next
  case (Suc n)
  { case 1
    then show ?case
    proof (cases rule: restart_Suc_cases)
      case (again w1 i1 w2)
      from again(1) have "running_on w w1" by (rule forJ_outcome(1))
      moreover from again(3) have "running_on w2 w'" by (intro Suc.IH(1)) simp
      ultimately show ?thesis using again(2) running_on_trans by blast
    qed simp_all }
  { case 2
    then show ?case
    proof (cases rule: restart_Suc_cases)
      case (exit w1)
      then show ?thesis using forJ_outcome(2) by auto
    next
      case (finish w1)
      then show ?thesis using forJ_outcome(1) by auto
    next
      case (again w1 i1 w2)
      from again(1) have a: "running_on w w1" by (rule forJ_outcome(1))
      from again(3) have "running_on w2 w' \<or> aborted_from w2 w'" by (intro Suc.IH(2)) simp
      with a again(2) show ?thesis
        using running_on_trans running_on_aborted by blast
    qed simp_all }
qed

lemma failed_not_in:
  "filter failed new = [] \<Longrightarrow> ret < 0 \<Longrightarrow> Transmitted idx ret \<notin> set new"
  by (auto simp: filter_empty_conv failed_def)

text \<open>
  C7: whenever a sequence-transmission of the replay loop returns a negative result, the
  transmitter transmits nothing further (no pending iteration of the group, no later group,
  no return to the queue): the failed transmission is the last event before the state is set
  to Finished, the stop flag is clear, and \<^verbatim>\<open>run\<close> returns to its caller, which
  sees the end only in the state. Stated for every amount of fuel: a replay that has seen a
  failed transmission is not still running.
\<close>

theorem run_error_aborts:
  assumes r: "run cfg env fuel t = Returned w \<or> run cfg env fuel t = StillRunning w"
      and ev: "Transmitted idx ret \<in> set (events w)"
      and neg: "ret < 0"
  shows "run cfg env fuel t = Returned w \<and> state (tx w) = kFinished \<and> \<not> stop (tx w) \<and>
         (\<exists>before. events w = before @ [Transmitted idx ret, SetState kFinished] \<and>
            filter failed before = [])"
proof (cases "int (length (packetSequenceList t)) \<le> 0")
  case True
  with r have "events w = [SetState kFinished]"
    by (auto simp: run_def Let_def setState_def emit_def initWorld_def)
  with ev show ?thesis by simp
next
  case False
  let ?w0 = "setState kRunning (initWorld t)"
  have e0: "events ?w0 = [SetState kRunning]"
    by (simp add: setState_def emit_def initWorld_def)
  from r False consider
      (still) "restart cfg env fuel 0 ?w0 = StillRunning w"
    | (ret) w1 where "restart cfg env fuel 0 ?w0 = Returned w1" "w = setState kFinished w1"
            "run cfg env fuel t = Returned w"
    by (auto simp: run_def Let_def split: Outcome.splits)
  then show ?thesis
  proof cases
    case still
    from restart_outcome(1) [OF still] e0 obtain new where
      "events w = [SetState kRunning] @ new" "filter failed new = []"
      by (auto simp: running_on_def)
    with ev neg failed_not_in show ?thesis by auto
  next
    case ret
    from restart_outcome(2) [OF ret(1)] show ?thesis
    proof
      assume "running_on ?w0 w1"
      with e0 obtain new where
        "events w1 = [SetState kRunning] @ new" "filter failed new = []"
        by (auto simp: running_on_def)
      with ev neg failed_not_in ret(2) show ?thesis
        by (auto simp: setState_def emit_def)
    next
      assume "aborted_from ?w0 w1"
      with e0 obtain new idx' ret' where
        a: "events w1 = [SetState kRunning] @ new @ [Transmitted idx' ret']" "ret' < 0"
           "filter failed new = []" "\<not> stop (tx w1)"
        by (auto simp: aborted_from_def)
      from a(1) ret(2) have ew:
        "events w = ([SetState kRunning] @ new) @ [Transmitted idx' ret', SetState kFinished]"
        by (simp add: setState_def emit_def)
      with ev neg failed_not_in [OF a(3) neg] have same: "idx' = idx" "ret' = ret"
        by auto
      have "filter failed ([SetState kRunning] @ new) = []"
        using a(3) by (simp add: failed_def)
      with ew same ret a(4) show ?thesis
        by (auto simp: setState_def emit_def)
    qed
  qed
qed

lemma stoppedWorld_run: "run smallLinux stopEnv (Suc 0) groupOfTwo = Returned stoppedWorld"
  by code_simp

lemma stoppedWorld_events:
  "events stoppedWorld =
     [SetState kRunning, SendPacket 60 0, Transmitted 0 (-2), SetState kFinished]"
  by code_simp

theorem run_error_aborts_witness:
  "run smallLinux stopEnv (Suc 0) groupOfTwo = Returned stoppedWorld \<and>
   Transmitted 0 (-2) \<in> set (events stoppedWorld) \<and> (-2::int) < 0 \<and>
   state (tx stoppedWorld) = kFinished \<and> \<not> stop (tx stoppedWorld) \<and>
   (\<exists>before. events stoppedWorld = before @ [Transmitted 0 (-2), SetState kFinished] \<and>
      filter failed before = [])"
proof -
  have r: "run smallLinux stopEnv (Suc 0) groupOfTwo = Returned stoppedWorld \<or>
           run smallLinux stopEnv (Suc 0) groupOfTwo = StillRunning stoppedWorld"
    using stoppedWorld_run by (rule disjI1)
  have ev: "Transmitted 0 (-2) \<in> set (events stoppedWorld)"
    by (simp add: stoppedWorld_events)
  have neg: "(-2::int) < 0" by simp
  from run_error_aborts [OF r ev neg] ev neg show ?thesis by blast
qed

subsection \<open>An empty list\<close>

text \<open>
  C10: when \<^verbatim>\<open>run\<close> executes with an empty list, the only thing it does is set
  the state to Finished: the state is never Running, no sequence is transmitted and no
  delay is observed, whatever the fuel. So \<^verbatim>\<open>start\<close> on an empty list (of a
  transmitter that is not already running) returns with \<^verbatim>\<open>isRunning()\<close> false.
\<close>

theorem run_empty_list:
  assumes "packetSequenceList t = []"
  shows "\<exists>w. run cfg env fuel t = Returned w \<and> events w = [SetState kFinished] \<and>
           state (tx w) = kFinished \<and> \<not> isRunning (tx w) \<and>
           (state t \<noteq> kRunning \<longrightarrow>
              (\<exists>w'. start cfg env fuel t = Returned w' \<and> events w' = [SetState kFinished] \<and>
                 \<not> isRunning (tx w')))"
  using assms
  by (simp add: run_def start_def setState_def emit_def initWorld_def isRunning_def)

theorem run_empty_list_witness:
  "packetSequenceList idleTransmitter = [] \<and> state idleTransmitter \<noteq> kRunning \<and>
   (\<exists>w. run smallLinux quietEnv 0 idleTransmitter = Returned w \<and>
      events w = [SetState kFinished] \<and> state (tx w) = kFinished \<and> \<not> isRunning (tx w)) \<and>
   (\<exists>w'. start smallLinux quietEnv 0 idleTransmitter = Returned w' \<and>
      events w' = [SetState kFinished] \<and> \<not> isRunning (tx w'))"
proof -
  have e: "packetSequenceList idleTransmitter = []"
    by (simp add: idleTransmitter_def)
  have s: "state idleTransmitter \<noteq> kRunning"
    by (simp add: idleTransmitter_def)
  from run_empty_list [OF e, of smallLinux quietEnv 0] show ?thesis using e s by blast
qed

subsection \<open>Where the code departs from what it asserts\<close>

text \<open>
  C3: the claim is that \<open>txPkts\<close> counts the successful sends and \<open>txBytes\<close> their
  bytes. \<^verbatim>\<open>sendQueueTransmit\<close> does not read the result of
  \<^verbatim>\<open>pcap_sendpacket\<close> (line 726) and counts every packet (lines 727-728), while
  the batch send of lines 582-588 counts only when its result is not negative. Here one
  packet of 60 bytes is replayed on Linux and its send fails: no send succeeded, and the
  counters say one packet and 60 bytes.
\<close>

theorem sendQueueTransmit_counts_failed_send:
  "(case run smallLinux (quietEnv\<lparr>pcap_sendpacket := (\<lambda>n. -1)\<rparr>) 1 onePacket of
      Returned w \<Rightarrow>
        events w = [SetState kRunning, SendPacket 60 (-1), Transmitted 0 0, SetState kFinished] \<and>
        successfulSends (events w) = 0 \<and>
        txPkts (stats (tx w)) = 1 \<and> txBytes (stats (tx w)) = 60
    | Crashed e \<Rightarrow> False
    | StillRunning w \<Rightarrow> False)"
  by code_simp

text \<open>
  C2: the claim is that both \<^verbatim>\<open>Q_ASSERT(overHead <= 0)\<close> hold in every
  execution. On the batch path (lines 589-592) the overhead becomes
  \<open>overHead + usecDuration - measured\<close>, and nothing keeps the measured time of the call
  above the nominal duration of the sequence. Here two packets half a second apart are
  handed to \<^verbatim>\<open>pcap_sendqueue_transmit\<close>, which comes back after ten microseconds
  having sent the first record only (76 of 152 bytes, a result that is not negative): the
  overhead is 499990 and the assertion fails.
\<close>

theorem fastPath_assertion_fails:
  "run smallWin32 (quietEnv\<lparr>pcap_sendqueue_transmit := (\<lambda>n. 76)\<rparr>) 1 halfSecondPair
     = Crashed (Q_ASSERT_failed A_overHead_le_0_fastpath)"
  by code_simp

text \<open>
  The assertion of \<^verbatim>\<open>sendQueueTransmit\<close> (line 710) does hold whenever the
  overhead is not positive on entry and the clock has not gone backwards.
\<close>

lemma syncWait_assertion_holds:
  assumes "overHead w \<le> 0"
      and "0 \<le> udiffTimeStamp cfg ovrStart (fst (getTimeStamp cfg env w))"
  shows "syncWait cfg env hdr ts ovrStart w
           \<noteq> Inl (Q_ASSERT_failed A_overHead_le_0_sendQueueTransmit)"
  using assms
  by (auto simp: syncWait_def Let_def getTimeStamp_def split: prod.splits if_splits)

end
